theory Spec2Isabelle
  imports Complex_Main
begin

section \<open>Python values\<close>

text \<open>
  The two source files compute with Python integers and floats.  Integers are modelled by
  \<open>int\<close>.  A float is a finite real, an infinity or NaN.  Arithmetic on finite floats is
  exact, so rounding error is outside the model, except that a result whose magnitude
  reaches \<open>2^1024 - 2^970\<close> overflows to an infinity, as IEEE round-to-nearest does.  Zero
  has no sign.  Exceptions raised by the source are values of \<open>py_error\<close>.
\<close>

datatype py_error = IndexError | KeyError | ValueError | OverflowError | ZeroDivisionError

datatype pyfloat = Fin real | PInf | MInf | NaN

definition overflow_threshold :: real where
  "overflow_threshold = 2 ^ 1024 - 2 ^ 970"

definition rnd :: "real \<Rightarrow> pyfloat" where
  \<comment> \<open>The float that an operation on finite floats returns when its exact result is \<open>x\<close>.\<close>
  "rnd x =
     (if overflow_threshold \<le> x then PInf
      else if x \<le> - overflow_threshold then MInf
      else Fin x)"

definition fsign :: "pyfloat \<Rightarrow> real" where
  "fsign a = (case a of Fin x \<Rightarrow> sgn x | PInf \<Rightarrow> 1 | MInf \<Rightarrow> - 1 | NaN \<Rightarrow> 0)"

definition fmul :: "pyfloat \<Rightarrow> pyfloat \<Rightarrow> pyfloat" where
  \<comment> \<open>\<open>a * b\<close>: an infinity times zero is NaN.\<close>
  "fmul a b =
     (case (a, b) of
        (Fin x, Fin y) \<Rightarrow> rnd (x * y)
      | (NaN, _) \<Rightarrow> NaN
      | (_, NaN) \<Rightarrow> NaN
      | _ \<Rightarrow> (if fsign a * fsign b = 0 then NaN
              else if 0 < fsign a * fsign b then PInf else MInf))"

definition fdiv :: "pyfloat \<Rightarrow> pyfloat \<Rightarrow> py_error + pyfloat" where
  \<comment> \<open>\<open>a / b\<close>: a zero divisor raises ZeroDivisionError.\<close>
  "fdiv a b =
     (case (a, b) of
        (_, Fin y) \<Rightarrow>
          (if y = 0 then Inl ZeroDivisionError
           else case a of
                  Fin x \<Rightarrow> Inr (rnd (x / y))
                | NaN \<Rightarrow> Inr NaN
                | _ \<Rightarrow> Inr (if 0 < fsign a * sgn y then PInf else MInf))
      | (NaN, _) \<Rightarrow> Inr NaN
      | (_, NaN) \<Rightarrow> Inr NaN
      | (Fin x, _) \<Rightarrow> Inr (Fin 0)
      | _ \<Rightarrow> Inr NaN)"

definition fless :: "pyfloat \<Rightarrow> pyfloat \<Rightarrow> bool" where
  \<comment> \<open>\<open>a < b\<close>: false when either side is NaN.\<close>
  "fless a b =
     (case (a, b) of
        (NaN, _) \<Rightarrow> False
      | (_, NaN) \<Rightarrow> False
      | (Fin x, Fin y) \<Rightarrow> x < y
      | (MInf, MInf) \<Rightarrow> False
      | (MInf, _) \<Rightarrow> True
      | (_, PInf) \<Rightarrow> b \<noteq> a
      | _ \<Rightarrow> False)"

definition py_max :: "pyfloat \<Rightarrow> pyfloat \<Rightarrow> pyfloat" where
  \<comment> \<open>The builtin \<open>max(a, b)\<close>: \<open>b\<close> if \<open>b > a\<close>, else \<open>a\<close>.\<close>
  "py_max a b = (if fless a b then b else a)"

definition py_min :: "pyfloat \<Rightarrow> pyfloat \<Rightarrow> pyfloat" where
  \<comment> \<open>The builtin \<open>min(a, b)\<close>: \<open>b\<close> if \<open>b < a\<close>, else \<open>a\<close>.\<close>
  "py_min a b = (if fless b a then b else a)"

definition trunc_toward_zero :: "real \<Rightarrow> int" where
  "trunc_toward_zero x = (if 0 \<le> x then \<lfloor>x\<rfloor> else \<lceil>x\<rceil>)"

definition py_int :: "pyfloat \<Rightarrow> py_error + int" where
  \<comment> \<open>\<open>int(x)\<close> on a float: truncation toward zero; an infinity raises OverflowError and
      NaN raises ValueError.\<close>
  "py_int a =
     (case a of
        Fin x \<Rightarrow> Inr (trunc_toward_zero x)
      | PInf \<Rightarrow> Inl OverflowError
      | MInf \<Rightarrow> Inl OverflowError
      | NaN \<Rightarrow> Inl ValueError)"

text \<open>
  \<open>calibration_data.json\<close>, as \<open>json.load\<close> returns it: a dict from anchor name to a list
  of finite numbers, in insertion order.
\<close>

type_synonym calibration = "(string \<times> real list) list"

definition column :: "nat \<Rightarrow> calibration \<Rightarrow> py_error + real list" where
  \<comment> \<open>\<open>[val[i] for val in calibration_points.values()]\<close>; a short record raises IndexError.\<close>
  "column i calib =
     (if list_all (\<lambda>val. i < length val) (map snd calib)
      then Inr (map (\<lambda>val. val ! i) (map snd calib))
      else Inl IndexError)"

section \<open>main_interface.py: \<open>MainInterface.check_gaze\<close>\<close>

subsection \<open>Projection of a gaze offset to a screen point (lines 68 to 96)\<close>

text \<open>
  The gaze offsets and the table entries are finite floats; the screen size is a pixel
  count, whose conversion to float is exact.  Every float operation of the source is one
  operation below, in the source's order.
\<close>

definition project :: "int \<Rightarrow> int \<Rightarrow> calibration \<Rightarrow> real \<times> real \<Rightarrow> py_error + (int \<times> int)" where
  "project screen_w screen_h calibration_points offsets =
     (let smoothed_dx = fst offsets; smoothed_dy = snd offsets;
          CENTER_X = screen_w div 2; CENTER_Y = screen_h div 2;
          dir_x = - 1; dir_y = 1
      in case column 2 calibration_points of Inl e \<Rightarrow> Inl e | Inr all_dx \<Rightarrow>
        (case column 3 calibration_points of Inl e \<Rightarrow> Inl e | Inr all_dy \<Rightarrow>
         if all_dx = [] then Inl ValueError
         else
           (let dx_range = rnd (Max (set all_dx) - Min (set all_dx));
                dy_range = rnd (Max (set all_dy) - Min (set all_dy));
                dy_range = py_max dy_range (Fin 0.01);
                dx_range = py_max dx_range (Fin 0.01)
            in case fdiv (Fin (real_of_int screen_w)) (fmul dx_range (Fin 0.8)) of
                 Inl e \<Rightarrow> Inl e
               | Inr quot_x \<Rightarrow>
            (case fdiv (Fin (real_of_int screen_h)) (fmul dy_range (Fin 0.8)) of
                 Inl e \<Rightarrow> Inl e
               | Inr quot_y \<Rightarrow>
            (let SCALE_X = py_min quot_x (Fin 40000);
                 SCALE_Y = py_min quot_y (Fin 40000)
             in (case map_of calibration_points ''Center'' of
                 None \<Rightarrow> Inl KeyError
               | Some center \<Rightarrow>
                   (let center_dx = center ! 2;
                        center_dy = center ! 3;
                        dx_relative = rnd (smoothed_dx - center_dx);
                        dy_relative = rnd (smoothed_dy - center_dy)
                    in case py_int (fmul (fmul (Fin dir_x) dx_relative) SCALE_X) of
                         Inl e \<Rightarrow> Inl e
                       | Inr int_x \<Rightarrow>
                      (case py_int (fmul (fmul (Fin dir_y) dy_relative) SCALE_Y) of
                         Inl e \<Rightarrow> Inl e
                       | Inr int_y \<Rightarrow>
                      (let screen_x = CENTER_X + int_x;
                           screen_y = CENTER_Y + int_y;
                           screen_x = max 0 (min (screen_w - 1) screen_x);
                           screen_y = max 0 (min (screen_h - 1) screen_y)
                       in Inr (screen_x, screen_y))))))))))"

subsection \<open>Smoothing of the pointer position (lines 98 to 103)\<close>

text \<open>
  The operands are pixel coordinates, so the float is finite and \<open>int\<close> is the truncation.
\<close>

definition smooth_axis :: "int \<Rightarrow> int \<Rightarrow> int" where
  \<comment> \<open>\<open>int(prev + 0.2 * (screen - prev))\<close>, the same expression on each axis.\<close>
  "smooth_axis prev screen =
     trunc_toward_zero (real_of_int prev + 0.2 * real_of_int (screen - prev))"

definition smooth :: "int \<times> int \<Rightarrow> int \<times> int \<Rightarrow> int \<times> int" where
  "smooth prev_cursor_pos screen =
     (smooth_axis (fst prev_cursor_pos) (fst screen), smooth_axis (snd prev_cursor_pos) (snd screen))"

subsection \<open>Dwell selection (lines 105 to 121)\<close>

text \<open>
  A button is a widget, identified by \<open>btn_id\<close> (the source compares widgets by identity),
  with the rectangle the loop tests: its geometry moved to its global top-left corner.
  Widgets have a positive width and height, for which \<open>QRect.contains\<close> is the test below.
\<close>

record button =
  btn_id :: nat
  left :: int
  top :: int
  width :: int
  height :: int

definition contains :: "button \<Rightarrow> int \<times> int \<Rightarrow> bool" where
  "contains btn p =
     (left btn \<le> fst p \<and> fst p \<le> left btn + width btn - 1 \<and>
      top btn \<le> snd p \<and> snd p \<le> top btn + height btn - 1)"

text \<open>
  \<open>QElapsedTimer\<close>: invalid when constructed and after \<open>invalidate()\<close>; \<open>restart()\<close> stores
  the clock.  \<open>hasExpired(timeout)\<close> is true when more than \<open>timeout\<close> milliseconds have
  elapsed.  Qt documents the elapsed time of an invalid timer as undefined; its
  implementation computes it from the invalid stamp, which gives a huge elapsed time, so
  \<open>hasExpired\<close> answers true.  The answer on an invalid timer is the parameter
  \<open>invalid_expired\<close>: \<open>True\<close> is what Qt does, and the properties that do not depend on the
  answer are stated for both values.
\<close>

datatype timer = Invalid | Started int

definition hasExpired :: "bool \<Rightarrow> timer \<Rightarrow> int \<Rightarrow> int \<Rightarrow> bool" where
  "hasExpired invalid_expired tm now timeout =
     (case tm of Invalid \<Rightarrow> invalid_expired | Started since \<Rightarrow> timeout < now - since)"

record main_interface =
  hovered_button :: "nat option"
  hover_timer :: timer
  prev_cursor_pos :: "int \<times> int"

text \<open>
  The \<open>for btn in self.buttons: ... break ... else: ...\<close> loop.  The result is the new
  state and the buttons clicked on this tick.
\<close>

fun dwell :: "bool \<Rightarrow> int \<Rightarrow> int \<times> int \<Rightarrow> button list \<Rightarrow> main_interface \<Rightarrow> main_interface \<times> nat list" where
  "dwell invalid_expired now p [] self =
     (self\<lparr>hovered_button := None, hover_timer := Invalid\<rparr>, [])"
| "dwell invalid_expired now p (btn # buttons) self =
     (if contains btn p then
        (if hovered_button self \<noteq> Some (btn_id btn) then
           (self\<lparr>hovered_button := Some (btn_id btn), hover_timer := Started now\<rparr>, [])
         else if hasExpired invalid_expired (hover_timer self) now 2000 then
           (self\<lparr>hover_timer := Invalid\<rparr>, [btn_id btn])
         else (self, []))
      else dwell invalid_expired now p buttons self)"

subsection \<open>One timer tick\<close>

datatype event = MoveTo int int | Click nat

text \<open>
  \<open>check_gaze\<close>: the inputs are what the tick reads from outside (the tracker's latest
  offsets, the screen size, the loaded calibration table, the buttons of the current screen
  and the clock); the result is the new state and the pointer move and clicks it made.
\<close>

definition check_gaze ::
  "bool \<Rightarrow> calibration \<Rightarrow> int \<times> int \<Rightarrow> button list \<Rightarrow> int \<Rightarrow> real \<times> real \<Rightarrow> main_interface
     \<Rightarrow> py_error + (main_interface \<times> event list)" where
  "check_gaze invalid_expired calibration_points screen buttons now offsets self =
     (case project (fst screen) (snd screen) calibration_points offsets of
        Inl e \<Rightarrow> Inl e
      | Inr (screen_x, screen_y) \<Rightarrow>
          (let (smooth_x, smooth_y) = smooth (prev_cursor_pos self) (screen_x, screen_y);
               self = self\<lparr>prev_cursor_pos := (smooth_x, smooth_y)\<rparr>;
               (self, clicks) = dwell invalid_expired now (screen_x, screen_y) buttons self
           in Inr (self, MoveTo smooth_x smooth_y # map Click clicks)))"

section \<open>calibration_ui.py: \<open>CalibrationWindow.run_evaluation\<close>\<close>

definition positions :: "(string \<times> real \<times> real \<times> char) list" where
  "positions =
     [(''Top-Left'', 0.0, 0.0, CHR ''q''),
      (''Top'', 0.5, 0.0, CHR ''w''),
      (''Top-Right'', 1.0, 0.0, CHR ''e''),
      (''Far-Left'', 0.0, 0.5, CHR ''a''),
      (''Center'', 0.5, 0.5, CHR ''c''),
      (''Far-Right'', 1.0, 0.5, CHR ''d''),
      (''Bottom-Left'', 0.0, 1.0, CHR ''z''),
      (''Bottom'', 0.5, 1.0, CHR ''s''),
      (''Bottom-Right'', 1.0, 1.0, CHR ''x'')]"

text \<open>
  The evaluation computes on finite floats with exact arithmetic: overflow in the
  statistics is outside the model.
\<close>

text \<open>
  The loop over \<open>calib.items()\<close> (lines 132 to 154).  The lists \<open>predicted\<close> and
  \<open>ground_truth\<close> grow together, so the result is one list of pairs
  \<open>((px, py), (gx, gy))\<close>.
\<close>

fun collect :: "int \<Rightarrow> int \<Rightarrow> calibration \<Rightarrow> ((real \<times> real) \<times> (real \<times> real)) list" where
  "collect screen_w screen_h [] = []"
| "collect screen_w screen_h ((name, values) # calib) =
     (if length values \<noteq> 5 then collect screen_w screen_h calib
      else case map_of positions name of
             None \<Rightarrow> collect screen_w screen_h calib
           | Some (x_frac, y_frac, key) \<Rightarrow>
               (let gx = x_frac * real_of_int screen_w;
                    gy = y_frac * real_of_int screen_h;
                    dx = values ! 2;
                    dy = values ! 3;
                    w = values ! 4;
                    px = gx + dx * w;
                    py = gy + dy * w
                in ((px, py), (gx, gy)) # collect screen_w screen_h calib))"

definition euclidean_norm :: "(real \<times> real) \<times> (real \<times> real) \<Rightarrow> real" where
  \<comment> \<open>One row of \<open>np.linalg.norm(pred - gt, axis=1)\<close>.\<close>
  "euclidean_norm pg =
     (case pg of ((px, py), (gx, gy)) \<Rightarrow> sqrt ((px - gx)\<^sup>2 + (py - gy)\<^sup>2))"

definition clip :: "real \<Rightarrow> real \<Rightarrow> real \<Rightarrow> real" where
  "clip x lo hi = min (max x lo) hi"

definition ang_err :: "(real \<times> real) \<times> (real \<times> real) \<Rightarrow> real" where
  "ang_err pg =
     (case pg of ((px, py), (gx, gy)) \<Rightarrow>
        (let dot = px * gx + py * gy + 1 * 1;
             norm_p3 = sqrt (px\<^sup>2 + py\<^sup>2 + 1\<^sup>2);
             norm_g3 = sqrt (gx\<^sup>2 + gy\<^sup>2 + 1\<^sup>2);
             cos = clip (dot / (norm_p3 * norm_g3)) (- 1) 1
         in arccos cos * 180 / pi))"

definition mean :: "real list \<Rightarrow> real" where
  "mean xs = sum_list xs / real (length xs)"

definition accuracy_at :: "real list \<Rightarrow> real \<Rightarrow> real" where
  \<comment> \<open>\<open>(euclidean < t).sum() / len(euclidean)\<close>\<close>
  "accuracy_at euclidean t = real (length (filter (\<lambda>d. d < t) euclidean)) / real (length euclidean)"

definition py_round2 :: "real \<Rightarrow> real" where
  \<comment> \<open>\<open>round(x, 2)\<close>: to two decimals, a tie going to the even neighbour.\<close>
  "py_round2 x =
     (let y = x * 100; f = \<lfloor>y\<rfloor>
      in real_of_int (if y - real_of_int f < 1 / 2 then f
                      else if 1 / 2 < y - real_of_int f then f + 1
                      else if even f then f else f + 1) / 100)"

record summary =
  mean_euclidean_distance_px :: real
  mean_angular_error_deg :: real
  accuracy_thresholds_px :: "int list"
  accuracy_percentages :: "real list"

text \<open>
  \<open>run_evaluation\<close> on the loaded table; \<open>None\<close> is the early return that writes no
  summary.  The plots drawn between the statistics and the summary are left out.
\<close>

definition run_evaluation :: "int \<Rightarrow> int \<Rightarrow> calibration \<Rightarrow> summary option" where
  "run_evaluation screen_w screen_h calib =
     (let predicted = collect screen_w screen_h calib
      in if predicted = [] then None
         else
           (let euclidean = map euclidean_norm predicted;
                mean_euc = mean euclidean;
                angular = map ang_err predicted;
                mean_ang = mean angular;
                thresholds = [20, 40, 60, 80, 100];
                accuracy = map (\<lambda>t. accuracy_at euclidean (real_of_int t)) thresholds
            in Some \<lparr>mean_euclidean_distance_px = py_round2 mean_euc,
                     mean_angular_error_deg = py_round2 mean_ang,
                     accuracy_thresholds_px = thresholds,
                     accuracy_percentages = map (\<lambda>a. py_round2 (a * 100)) accuracy\<rparr>))"

section \<open>Auxiliary definitions for stating the properties\<close>

text \<open>
  The persisted shape of a calibration table: every record is a list of five numbers
  \<open>[count, reserved, dx, dy, width]\<close> and there is a record named \<open>Center\<close>.
\<close>

definition well_formed :: "calibration \<Rightarrow> bool" where
  "well_formed calib =
     (list_all (\<lambda>val. length val = 5) (map snd calib) \<and> map_of calib ''Center'' \<noteq> None)"

definition set_count :: "real \<Rightarrow> real list \<Rightarrow> real list" where
  \<comment> \<open>The record with its sample count (index 0) replaced.\<close>
  "set_count c val = val[0 := c]"

definition smooth_n :: "nat \<Rightarrow> int \<Rightarrow> int \<Rightarrow> int" where
  \<comment> \<open>One axis of the pointer after \<open>n\<close> ticks that all project to \<open>target\<close>.\<close>
  "smooth_n n prev target = ((\<lambda>p. smooth_axis p target) ^^ n) prev"

definition hit :: "button list \<Rightarrow> int \<times> int \<Rightarrow> nat option" where
  \<comment> \<open>The first button of the list that contains the point, if any.\<close>
  "hit buttons p = map_option btn_id (find (\<lambda>btn. contains btn p) buttons)"

text \<open>
  Consecutive ticks of the dwell loop: each tick has its clock value, the tested point and
  the buttons of the screen shown at that tick.  The result lists the clicks of each tick.
\<close>

fun dwell_run ::
  "bool \<Rightarrow> (int \<times> (int \<times> int) \<times> button list) list \<Rightarrow> main_interface
     \<Rightarrow> main_interface \<times> nat list list" where
  "dwell_run invalid_expired [] self = (self, [])"
| "dwell_run invalid_expired ((now, p, buttons) # ticks) self =
     (let (self, clicks) = dwell invalid_expired now p buttons self;
          (self, rest) = dwell_run invalid_expired ticks self
      in (self, clicks # rest))"

text \<open>
  The two per-axis expressions of the projection, named for the proofs: the scale factor
  \<open>min(screen / (max(max(all) - min(all), 0.01) * 0.8), 40000)\<close>, the pixel offset
  \<open>int(dir * (smoothed - center) * SCALE)\<close> and the clamped coordinate.
\<close>

definition float_ge :: "real \<Rightarrow> pyfloat \<Rightarrow> bool" where
  \<comment> \<open>A float that is at least \<open>lo\<close>: a finite one or plus infinity.\<close>
  "float_ge lo a = (case a of Fin r \<Rightarrow> lo \<le> r | PInf \<Rightarrow> True | MInf \<Rightarrow> False | NaN \<Rightarrow> False)"

definition scale :: "int \<Rightarrow> real list \<Rightarrow> py_error + pyfloat" where
  "scale screen all_d =
     (case fdiv (Fin (real_of_int screen))
             (fmul (py_max (rnd (Max (set all_d) - Min (set all_d))) (Fin 0.01)) (Fin 0.8)) of
        Inl e \<Rightarrow> Inl e
      | Inr quot \<Rightarrow> Inr (py_min quot (Fin 40000)))"

definition offset_px :: "real \<Rightarrow> real \<Rightarrow> real \<Rightarrow> pyfloat \<Rightarrow> py_error + int" where
  "offset_px dir smoothed center SCALE =
     py_int (fmul (fmul (Fin dir) (rnd (smoothed - center))) SCALE)"

definition place :: "int \<Rightarrow> int \<Rightarrow> int" where
  "place screen i = max 0 (min (screen - 1) (screen div 2 + i))"

definition qualifies :: "string \<times> real list \<Rightarrow> bool" where
  \<comment> \<open>The entries of a table that the evaluator does not skip.\<close>
  "qualifies entry = (length (snd entry) = 5 \<and> fst entry \<in> set (map fst positions))"

subsection \<open>Example data\<close>

definition example_calibration :: calibration where
  "example_calibration =
     [(''Center'', [30, 0, 0, 0, 50]), (''Top-Left'', [12, 0, 1, 1, 50])]"

definition zero_count_calibration :: calibration where
  "zero_count_calibration =
     [(''Center'', [30, 0, 0, 0, 50]), (''Top-Left'', [0, 0, 1, 1, 50])]"

definition example_button :: button where
  "example_button = \<lparr>btn_id = 1, left = 90, top = 70, width = 21, height = 21\<rparr>"

definition perfect_calibration :: calibration where
  \<comment> \<open>On a 1000 by 800 screen: \<open>dx = x_frac * 1000\<close>, \<open>dy = y_frac * 800\<close>, \<open>width = 1\<close>.\<close>
  "perfect_calibration =
     [(''Top-Left'', [10, 0, 0, 0, 1]),
      (''Top'', [10, 0, 500, 0, 1]),
      (''Top-Right'', [10, 0, 1000, 0, 1]),
      (''Far-Left'', [10, 0, 0, 400, 1]),
      (''Center'', [10, 0, 500, 400, 1]),
      (''Far-Right'', [10, 0, 1000, 400, 1]),
      (''Bottom-Left'', [10, 0, 0, 800, 1]),
      (''Bottom'', [10, 0, 500, 800, 1]),
      (''Bottom-Right'', [10, 0, 1000, 800, 1])]"

definition mixed_calibration :: calibration where
  \<comment> \<open>Two entries that qualify, one with a short value and one with an unknown name.\<close>
  "mixed_calibration =
     [(''Center'', [10, 0, 0, 0, 50]),
      (''Top'', [10, 0, 3]),
      (''Nowhere'', [10, 0, 1, 1, 50]),
      (''Top-Left'', [10, 0, 3, 4, 10])]"

definition zero_calibration :: calibration where
  \<comment> \<open>Two anchors whose stored mean offsets are zero.\<close>
  "zero_calibration = [(''Center'', [10, 0, 0, 0, 50]), (''Top'', [10, 0, 0, 0, 40])]"

definition idle :: main_interface where
  \<comment> \<open>The state \<open>__init__\<close> leaves, with the pointer at the origin.\<close>
  "idle = \<lparr>hovered_button = None, hover_timer = Invalid, prev_cursor_pos = (0, 0)\<rparr>"

section \<open>Properties of the float operations\<close>

lemma overflow_threshold_big: "10 ^ 308 < overflow_threshold"
  unfolding overflow_threshold_def by simp

lemma overflow_threshold_pos: "0 < overflow_threshold"
proof -
  have "(0::real) < 10 ^ 308" by simp
  then show ?thesis using overflow_threshold_big by (rule less_trans)
qed

lemma rnd_Fin: "\<bar>x\<bar> < overflow_threshold \<Longrightarrow> rnd x = Fin x"
  by (auto simp: rnd_def)

lemma rnd_0: "rnd 0 = Fin 0"
  using overflow_threshold_pos by (simp add: rnd_Fin)

lemma rnd_cases:
  obtains "rnd x = Fin x" "\<bar>x\<bar> < overflow_threshold"
        | "rnd x = PInf" "overflow_threshold \<le> x"
        | "rnd x = MInf" "x \<le> - overflow_threshold"
proof (cases "overflow_threshold \<le> x")
  case True
  then have "rnd x = PInf" by (simp add: rnd_def)
  then show ?thesis using True by (rule that(2))
next
  case False
  show ?thesis
  proof (cases "x \<le> - overflow_threshold")
    case True
    with False have "rnd x = MInf" by (simp add: rnd_def)
    then show ?thesis using True by (rule that(3))
  next
    case lo: False
    with False have "rnd x = Fin x" by (simp add: rnd_def)
    moreover from False lo have "\<bar>x\<bar> < overflow_threshold" by simp
    ultimately show ?thesis by (rule that(1))
  qed
qed

text \<open>The scale factor of an axis is a finite float between 0 and 40000.\<close>

lemma range_clamped: "float_ge 0.01 (py_max (rnd x) (Fin 0.01))"
  by (cases x rule: rnd_cases) (simp_all add: py_max_def fless_def float_ge_def)

lemma range_scaled:
  assumes "float_ge 0.01 a"
  shows "float_ge 0.008 (fmul a (Fin 0.8))"
proof (cases a)
  case (Fin r)
  with assms have r: "0.01 \<le> r" by (simp add: float_ge_def)
  then have p: "0.008 \<le> r * 0.8" by simp
  show ?thesis
  proof (cases "r * 0.8" rule: rnd_cases)
    case 1
    with Fin p show ?thesis by (simp add: fmul_def float_ge_def)
  next
    case 2
    with Fin show ?thesis by (simp add: fmul_def float_ge_def)
  next
    case 3
    with p overflow_threshold_pos show ?thesis by simp
  qed
next
  case PInf
  then show ?thesis by (simp add: fmul_def fsign_def float_ge_def)
next
  case MInf
  with assms show ?thesis by (simp add: float_ge_def)
next
  case NaN
  with assms show ?thesis by (simp add: float_ge_def)
qed

lemma quotient_nonneg:
  assumes "float_ge 0.008 b" "0 \<le> w"
  shows "\<exists>q. fdiv (Fin w) b = Inr q \<and> float_ge 0 q"
proof (cases b)
  case (Fin r)
  with assms have r: "0 < r" by (simp add: float_ge_def)
  with assms(2) have p: "0 \<le> w / r" by simp
  show ?thesis
  proof (cases "w / r" rule: rnd_cases)
    case 1
    with Fin r p show ?thesis by (simp add: fdiv_def float_ge_def)
  next
    case 2
    with Fin r show ?thesis by (simp add: fdiv_def float_ge_def)
  next
    case 3
    with p overflow_threshold_pos show ?thesis by simp
  qed
next
  case PInf
  then show ?thesis by (simp add: fdiv_def float_ge_def)
next
  case MInf
  with assms show ?thesis by (simp add: float_ge_def)
next
  case NaN
  with assms show ?thesis by (simp add: float_ge_def)
qed

lemma quotient_capped:
  assumes "float_ge 0 q"
  shows "\<exists>s. py_min q (Fin 40000) = Fin s \<and> 0 \<le> s \<and> s \<le> 40000"
proof (cases q)
  case (Fin r)
  with assms have "0 \<le> r" by (simp add: float_ge_def)
  with Fin show ?thesis by (simp add: py_min_def fless_def)
next
  case PInf
  then show ?thesis by (simp add: py_min_def fless_def)
next
  case MInf
  with assms show ?thesis by (simp add: float_ge_def)
next
  case NaN
  with assms show ?thesis by (simp add: float_ge_def)
qed

lemma scale_finite:
  assumes "0 \<le> screen"
  shows "\<exists>s. scale screen all_d = Inr (Fin s) \<and> 0 \<le> s \<and> s \<le> 40000"
proof -
  let ?b = "fmul (py_max (rnd (Max (set all_d) - Min (set all_d))) (Fin 0.01)) (Fin 0.8)"
  have "float_ge 0.008 ?b"
    using range_clamped by (rule range_scaled)
  moreover from assms have "0 \<le> real_of_int screen" by simp
  ultimately obtain q where q: "fdiv (Fin (real_of_int screen)) ?b = Inr q"
    and "float_ge 0 q"
    using quotient_nonneg by blast
  from quotient_capped [OF this(2)] obtain s
    where "py_min q (Fin 40000) = Fin s" "0 \<le> s" "s \<le> 40000" by blast
  with q show ?thesis by (simp add: scale_def)
qed



lemma trunc_toward_zero_0: "trunc_toward_zero 0 = 0"
  by (simp add: trunc_toward_zero_def)

lemma offset_px_zero: "offset_px dir center center (Fin s) = Inr 0"
  by (simp add: offset_px_def rnd_0 fmul_def py_int_def trunc_toward_zero_0)


text \<open>The clamp.\<close>

lemma place_bounds: "1 \<le> screen \<Longrightarrow> 0 \<le> place screen i \<and> place screen i \<le> screen - 1"
  by (auto simp: place_def)

lemma place_center: "0 \<le> screen \<Longrightarrow> place screen 0 = screen div 2"
  by (auto simp: place_def)


section \<open>Properties of the projection\<close>

text \<open>The projection in terms of its per-axis expressions.\<close>

lemma project_eq:
  "project w h calib off =
     (case column 2 calib of Inl e \<Rightarrow> Inl e | Inr all_dx \<Rightarrow>
     (case column 3 calib of Inl e \<Rightarrow> Inl e | Inr all_dy \<Rightarrow>
      if all_dx = [] then Inl ValueError
      else (case scale w all_dx of Inl e \<Rightarrow> Inl e | Inr SCALE_X \<Rightarrow>
           (case scale h all_dy of Inl e \<Rightarrow> Inl e | Inr SCALE_Y \<Rightarrow>
           (case map_of calib ''Center'' of None \<Rightarrow> Inl KeyError | Some center \<Rightarrow>
           (case offset_px (- 1) (fst off) (center ! 2) SCALE_X of Inl e \<Rightarrow> Inl e | Inr int_x \<Rightarrow>
           (case offset_px 1 (snd off) (center ! 3) SCALE_Y of Inl e \<Rightarrow> Inl e | Inr int_y \<Rightarrow>
              Inr (place w int_x, place h int_y))))))))"
  by (simp add: project_def scale_def offset_px_def place_def Let_def
           split: sum.splits option.splits)


lemma column_well_formed:
  "list_all (\<lambda>val. length val = 5) (map snd calib) \<Longrightarrow> i < 5 \<Longrightarrow>
     column i calib = Inr (map (\<lambda>val. val ! i) (map snd calib))"
  unfolding column_def by (auto simp: list_all_iff)

lemma well_formed_nonempty: "well_formed calib \<Longrightarrow> calib \<noteq> []"
  by (auto simp: well_formed_def)

text \<open>
  With a table of the persisted shape, only the two \<open>int\<close> conversions can fail.
\<close>

lemma project_well_formed:
  assumes "well_formed calib" "0 \<le> screen_w" "0 \<le> screen_h"
      and "map_of calib ''Center'' = Some center"
  obtains sx sy where "0 \<le> sx" "sx \<le> 40000" "0 \<le> sy" "sy \<le> 40000"
    "\<And>offsets. project screen_w screen_h calib offsets =
       (case offset_px (- 1) (fst offsets) (center ! 2) (Fin sx) of
          Inl e \<Rightarrow> Inl e
        | Inr int_x \<Rightarrow>
           (case offset_px 1 (snd offsets) (center ! 3) (Fin sy) of
              Inl e \<Rightarrow> Inl e
            | Inr int_y \<Rightarrow> Inr (place screen_w int_x, place screen_h int_y)))"
proof -
  from assms(1) have l: "list_all (\<lambda>val. length val = 5) (map snd calib)"
    by (simp add: well_formed_def)
  from assms(1) have ne: "calib \<noteq> []" by (rule well_formed_nonempty)
  let ?all_dx = "map ((\<lambda>val. val ! 2) \<circ> snd) calib"
  let ?all_dy = "map ((\<lambda>val. val ! 3) \<circ> snd) calib"
  from scale_finite [OF assms(2)] obtain sx
    where sx: "scale screen_w ?all_dx = Inr (Fin sx)" "0 \<le> sx" "sx \<le> 40000" by blast
  from scale_finite [OF assms(3)] obtain sy
    where sy: "scale screen_h ?all_dy = Inr (Fin sy)" "0 \<le> sy" "sy \<le> 40000" by blast
  have "project screen_w screen_h calib offsets =
       (case offset_px (- 1) (fst offsets) (center ! 2) (Fin sx) of
          Inl e \<Rightarrow> Inl e
        | Inr int_x \<Rightarrow>
           (case offset_px 1 (snd offsets) (center ! 3) (Fin sy) of
              Inl e \<Rightarrow> Inl e
            | Inr int_y \<Rightarrow> Inr (place screen_w int_x, place screen_h int_y)))" for offsets
    using ne by (simp add: project_eq column_well_formed [OF l] sx(1) sy(1) assms(4))
  with sx(2,3) sy(2,3) show ?thesis by (rule that)
qed

lemma project_bounds:
  assumes "1 \<le> screen_w" "1 \<le> screen_h"
      and "project screen_w screen_h calib offsets = Inr (x, y)"
  shows "0 \<le> x \<and> x \<le> screen_w - 1 \<and> 0 \<le> y \<and> y \<le> screen_h - 1"
proof -
  from assms(3) have "\<exists>int_x int_y. x = place screen_w int_x \<and> y = place screen_h int_y"
    by (simp add: project_eq split: sum.splits if_splits option.splits) blast
  then obtain int_x int_y where "x = place screen_w int_x" "y = place screen_h int_y" by blast
  with place_bounds [OF assms(1)] place_bounds [OF assms(2)] show ?thesis by simp
qed



lemma example_project:
  "project 1000 800 example_calibration (0, 0) = Inr (500, 400)"
  "project 1000 800 example_calibration (- 0.5, 0.3) = Inr (999, 700)"
  "project 1000 800 zero_count_calibration (0, 0) = Inr (500, 400)"
  by (simp_all add: project_eq column_def example_calibration_def zero_count_calibration_def
        scale_def offset_px_def place_def rnd_def overflow_threshold_def fmul_def fdiv_def
        py_max_def py_min_def fless_def py_int_def trunc_toward_zero_def)


text \<open>
  C6.  For every calibration table of the persisted shape with a Center record, whatever
  its sample counts, the projection of the Center record's own mean offsets
  (\<open>dx = center[2]\<close>, \<open>dy = center[3]\<close>) is exactly the screen center
  \<open>(screen_w // 2, screen_h // 2)\<close>.
\<close>

theorem project_center:
  assumes "well_formed calib" "0 \<le> screen_w" "0 \<le> screen_h"
      and "map_of calib ''Center'' = Some center"
  shows "project screen_w screen_h calib (center ! 2, center ! 3)
           = Inr (screen_w div 2, screen_h div 2)"
proof -
  from project_well_formed [OF assms] obtain sx sy where
    p: "project screen_w screen_h calib (center ! 2, center ! 3) =
       (case offset_px (- 1) (fst (center ! 2, center ! 3)) (center ! 2) (Fin sx) of
          Inl e \<Rightarrow> Inl e
        | Inr int_x \<Rightarrow>
           (case offset_px 1 (snd (center ! 2, center ! 3)) (center ! 3) (Fin sy) of
              Inl e \<Rightarrow> Inl e
            | Inr int_y \<Rightarrow> Inr (place screen_w int_x, place screen_h int_y)))"
    by blast
  show ?thesis
    unfolding p by (simp add: offset_px_zero place_center assms(2,3))
qed

theorem project_center_witness:
  "well_formed example_calibration \<and> (0::int) \<le> 1001 \<and> (0::int) \<le> 800 \<and>
   map_of example_calibration ''Center'' = Some [30, 0, 0, 0, 50] \<and>
   project 1001 800 example_calibration ([30, 0, 0, 0, 50] ! 2, [30, 0, 0, 0, 50] ! 3)
     = Inr (500, 400)"
proof -
  have w: "well_formed example_calibration"
    by (simp add: well_formed_def example_calibration_def)
  have c: "map_of example_calibration ''Center'' = Some [30, 0, 0, 0, 50]"
    by (simp add: example_calibration_def)
  from project_center [OF w _ _ c, of 1001 800] w c show ?thesis by simp
qed



section \<open>Properties of the smoothing\<close>

lemma trunc_between:
  "real_of_int a \<le> x \<Longrightarrow> x \<le> real_of_int b \<Longrightarrow>
     a \<le> trunc_toward_zero x \<and> trunc_toward_zero x \<le> b"
  unfolding trunc_toward_zero_def by (auto simp: le_floor_iff ceiling_le_iff) linarith+

lemma trunc_ge: "real_of_int a \<le> x \<Longrightarrow> a \<le> trunc_toward_zero x"
  unfolding trunc_toward_zero_def by (auto simp: le_floor_iff) linarith

lemma trunc_le: "x \<le> real_of_int b \<Longrightarrow> trunc_toward_zero x \<le> b"
  unfolding trunc_toward_zero_def by (auto simp: ceiling_le_iff) linarith

lemma smooth_axis_up:
  assumes "prev \<le> target"
  shows "prev \<le> smooth_axis prev target \<and> smooth_axis prev target \<le> target"
  unfolding smooth_axis_def
proof (rule trunc_between)
  from assms have d: "0 \<le> real_of_int target - real_of_int prev" by simp
  then show "real_of_int prev \<le> real_of_int prev + 0.2 * real_of_int (target - prev)" by simp
  from d show "real_of_int prev + 0.2 * real_of_int (target - prev) \<le> real_of_int target"
    unfolding of_int_diff by (simp add: field_simps)
qed

lemma smooth_axis_down:
  assumes "target \<le> prev"
  shows "target \<le> smooth_axis prev target \<and> smooth_axis prev target \<le> prev"
  unfolding smooth_axis_def
proof (rule trunc_between)
  from assms have d: "real_of_int target - real_of_int prev \<le> 0" by simp
  then show "real_of_int prev + 0.2 * real_of_int (target - prev) \<le> real_of_int prev" by simp
  from d show "real_of_int target \<le> real_of_int prev + 0.2 * real_of_int (target - prev)"
    unfolding of_int_diff by (simp add: field_simps)
qed

lemma smooth_axis_fixed: "smooth_axis target target = target"
  using smooth_axis_up [of target target] by simp

lemma smooth_axis_closer: "\<bar>target - smooth_axis prev target\<bar> \<le> \<bar>target - prev\<bar>"
  using smooth_axis_up [of prev target] smooth_axis_down [of target prev] by linarith

lemma smooth_axis_nonneg: "0 \<le> prev \<Longrightarrow> 0 \<le> target \<Longrightarrow> 0 \<le> smooth_axis prev target"
  using smooth_axis_up [of prev target] smooth_axis_down [of target prev] by linarith

text \<open>Five or more pixels away from the target, a tick moves the pointer at least one pixel.\<close>

lemma smooth_axis_progress:
  assumes "5 \<le> \<bar>target - prev\<bar>"
  shows "\<bar>target - smooth_axis prev target\<bar> \<le> \<bar>target - prev\<bar> - 1"
proof (cases "prev \<le> target")
  case True
  with assms have "5 \<le> target - prev" by simp
  then have "5 \<le> real_of_int (target - prev)" by linarith
  then have "real_of_int (prev + 1) \<le> real_of_int prev + 0.2 * real_of_int (target - prev)"
    by simp
  then have "prev + 1 \<le> smooth_axis prev target"
    unfolding smooth_axis_def by (rule trunc_ge)
  with smooth_axis_up [OF True] True show ?thesis by linarith
next
  case False
  with assms have "5 \<le> prev - target" by simp
  then have "real_of_int (target - prev) \<le> - 5" by linarith
  then have "real_of_int prev + 0.2 * real_of_int (target - prev) \<le> real_of_int (prev - 1)"
    by simp
  then have "smooth_axis prev target \<le> prev - 1"
    unfolding smooth_axis_def by (rule trunc_le)
  with smooth_axis_down [of target prev] False show ?thesis by linarith
qed

text \<open>
  With non-negative coordinates a tick leaves the pointer where it is exactly when the
  target is zero to four pixels above it.
\<close>

lemma smooth_axis_unchanged_iff:
  assumes "0 \<le> prev" "0 \<le> target"
  shows "(smooth_axis prev target = prev) = (prev \<le> target \<and> target \<le> prev + 4)"
proof -
  let ?v = "real_of_int prev + 0.2 * real_of_int (target - prev)"
  have v: "?v = 0.8 * real_of_int prev + 0.2 * real_of_int target"
    unfolding of_int_diff by (simp add: field_simps)
  from assms have "0 \<le> ?v" unfolding v by simp
  then have "smooth_axis prev target = \<lfloor>?v\<rfloor>" by (simp add: smooth_axis_def trunc_toward_zero_def)
  also have "(\<lfloor>?v\<rfloor> = prev) = (real_of_int prev \<le> ?v \<and> ?v < real_of_int prev + 1)"
    by (simp add: floor_eq_iff)
  also have "\<dots> = (0 \<le> real_of_int (target - prev) \<and> real_of_int (target - prev) < 5)" by auto
  also have "\<dots> = (prev \<le> target \<and> target \<le> prev + 4)" by linarith
  finally show ?thesis .
qed

lemma smooth_n_0: "smooth_n 0 prev target = prev"
  by (simp add: smooth_n_def)

lemma smooth_n_Suc: "smooth_n (Suc n) prev target = smooth_axis (smooth_n n prev target) target"
  by (simp add: smooth_n_def)

lemma smooth_n_fixed: "smooth_n n target target = target"
  by (induction n) (simp_all add: smooth_n_0 smooth_n_Suc smooth_axis_fixed)

lemma smooth_n_stuck: "smooth_axis prev target = prev \<Longrightarrow> smooth_n n prev target = prev"
  by (induction n) (simp_all add: smooth_n_0 smooth_n_Suc)

lemma smooth_n_below: "prev \<le> target \<Longrightarrow> smooth_n n prev target \<le> target"
  by (induction n) (simp_all add: smooth_n_0 smooth_n_Suc smooth_axis_up)

lemma smooth_n_above: "target \<le> prev \<Longrightarrow> target \<le> smooth_n n prev target"
  by (induction n) (simp_all add: smooth_n_0 smooth_n_Suc smooth_axis_down)

lemma smooth_n_near:
  "\<bar>target - smooth_n n prev target\<bar> \<le> max 4 (\<bar>target - prev\<bar> - int n)"
proof (induction n)
  case 0
  show ?case by (simp add: smooth_n_0)
next
  case (Suc n)
  let ?x = "smooth_n n prev target"
  show ?case
  proof (cases "5 \<le> \<bar>target - ?x\<bar>")
    case True
    from smooth_axis_progress [OF True] Suc show ?thesis
      unfolding smooth_n_Suc by linarith
  next
    case False
    with smooth_axis_closer [of target ?x] show ?thesis
      unfolding smooth_n_Suc by linarith
  qed
qed

text \<open>
  C8, the claim as stated fails.  With the pointer at 0 and the projected target held at 4,
  a tick computes \<open>int(0 + 0.2 * 4) = 0\<close>: the pointer does not move, and after 1000 ticks
  it is still at 0, four pixels short of the target.
\<close>

theorem smoothing_stalls_below_target:
  "smooth_axis 0 4 = 0 \<and> smooth_n 1000 0 4 = 0 \<and> smooth_n 1000 0 4 \<noteq> 4"
proof -
  have s: "smooth_axis 0 4 = 0" by (simp add: smooth_axis_def trunc_toward_zero_def)
  from smooth_n_stuck [OF s, of 1000] s show ?thesis by simp
qed

text \<open>
  C8, amended.  While the projected target is held constant, each tick moves the smoothed
  pointer coordinate toward the target or leaves it in place and never passes the target;
  at the target it stays there; and after \<open>n\<close> ticks it is within
  \<open>max 4 (\<bar>target - prev\<bar> - n)\<close> pixels of the target, so it ends within four
  pixels of the target, not necessarily on it.
\<close>

theorem smoothing_monotone_no_overshoot:
  "(prev \<le> target \<longrightarrow>
      smooth_n n prev target \<le> smooth_n (Suc n) prev target \<and>
      smooth_n (Suc n) prev target \<le> target) \<and>
   (target \<le> prev \<longrightarrow>
      target \<le> smooth_n (Suc n) prev target \<and>
      smooth_n (Suc n) prev target \<le> smooth_n n prev target) \<and>
   smooth_n n target target = target \<and>
   \<bar>target - smooth_n n prev target\<bar> \<le> max 4 (\<bar>target - prev\<bar> - int n)"
proof -
  have up: "smooth_n n prev target \<le> smooth_n (Suc n) prev target \<and>
            smooth_n (Suc n) prev target \<le> target" if "prev \<le> target"
    unfolding smooth_n_Suc using smooth_n_below [OF that] by (rule smooth_axis_up)
  have down: "target \<le> smooth_n (Suc n) prev target \<and>
              smooth_n (Suc n) prev target \<le> smooth_n n prev target" if "target \<le> prev"
    unfolding smooth_n_Suc using smooth_n_above [OF that] by (rule smooth_axis_down)
  from up down smooth_n_fixed smooth_n_near show ?thesis by blast
qed

theorem smoothing_monotone_no_overshoot_witness:
  "(0::int) \<le> 100 \<and> smooth_n 3 0 100 = 48 \<and> smooth_n (Suc 3) 0 100 = 58 \<and>
   smooth_n 3 0 100 \<le> smooth_n (Suc 3) 0 100 \<and> smooth_n (Suc 3) 0 100 \<le> 100 \<and>
   (100::int) \<le> 100 \<and> smooth_n 3 100 100 = 100 \<and>
   \<bar>100 - smooth_n 3 0 100\<bar> \<le> max 4 (\<bar>100 - 0\<bar> - int 3)"
proof -
  have v: "smooth_n 3 0 100 = 48" "smooth_n (Suc 3) 0 100 = 58"
    by (simp_all add: smooth_n_def eval_nat_numeral smooth_axis_def trunc_toward_zero_def)
  from smoothing_monotone_no_overshoot [of 0 100 3] v show ?thesis by simp
qed

section \<open>Properties of the dwell selection\<close>

lemma dwell_miss:
  "hit buttons p = None \<Longrightarrow>
     dwell ie now p buttons self = (self\<lparr>hovered_button := None, hover_timer := Invalid\<rparr>, [])"
  by (induction buttons) (auto simp: hit_def split: if_splits)

lemma dwell_hit:
  "hit buttons p = Some T \<Longrightarrow>
     dwell ie now p buttons self =
       (if hovered_button self \<noteq> Some T then
          (self\<lparr>hovered_button := Some T, hover_timer := Started now\<rparr>, [])
        else if hasExpired ie (hover_timer self) now 2000 then
          (self\<lparr>hover_timer := Invalid\<rparr>, [T])
        else (self, []))"
  by (induction buttons) (auto simp: hit_def split: if_splits)

lemma dwell_hovered: "hovered_button (fst (dwell ie now p buttons self)) = hit buttons p"
  by (induction buttons) (auto simp: hit_def)

lemma dwell_cursor: "prev_cursor_pos (fst (dwell ie now p buttons self)) = prev_cursor_pos self"
  by (induction buttons) auto

lemma dwell_enter:
  assumes "hit buttons p = Some T" "hovered_button self \<noteq> Some T"
  shows "dwell ie now p buttons self =
           (self\<lparr>hovered_button := Some T, hover_timer := Started now\<rparr>, [])"
  using assms by (simp add: dwell_hit)

lemma dwell_fire:
  assumes "hit buttons p = Some T" "hovered_button self = Some T"
      and "hover_timer self = Started since" "2000 < now - since"
  shows "dwell ie now p buttons self = (self\<lparr>hover_timer := Invalid\<rparr>, [T])"
  using assms by (simp add: dwell_hit hasExpired_def)

text \<open>
  After an activation the timer is invalid and the button is still the hovered one: on a
  further tick on the same button nothing restarts the timer, and the button is clicked
  again exactly if \<open>hasExpired\<close> answers true on the invalid timer.
\<close>

lemma dwell_after_activation:
  assumes "hit buttons p = Some T" "hovered_button self = Some T" "hover_timer self = Invalid"
  shows "dwell ie now p buttons self = (self, if ie then [T] else [])"
  using assms by (cases self) (auto simp add: dwell_hit hasExpired_def)

lemma dwell_run_append:
  "dwell_run ie (xs @ ys) self =
     (let (self', cs) = dwell_run ie xs self; (self'', cs') = dwell_run ie ys self'
      in (self'', cs @ cs'))"
  by (induction xs arbitrary: self) (auto simp: Let_def split: prod.splits)

lemma dwell_run_hold:
  assumes "hovered_button self = Some T" "hover_timer self = Started since"
      and "list_all (\<lambda>(now, p, buttons). hit buttons p = Some T \<and> now - since \<le> 2000) ticks"
  shows "dwell_run ie ticks self = (self, replicate (length ticks) [])"
  using assms
  by (induction ticks) (auto simp: dwell_hit hasExpired_def)

lemma example_button_contains:
  "contains example_button (100, 80)" "\<not> contains example_button (500, 400)"
  "btn_id example_button = 1"
  by (simp_all add: example_button_def contains_def)

lemma example_button_hit:
  "hit [example_button] (100, 80) = Some 1" "hit [example_button] (500, 400) = None"
  by (simp_all add: hit_def example_button_contains)

text \<open>
  The first activation of a dwell: entered at time \<open>since\<close> from a state that does not
  hover \<open>T\<close>, the ticks up to 2000 ms of hover click nothing, and the first tick past
  2000 ms clicks \<open>T\<close> once and leaves \<open>T\<close> hovered with an invalid timer.
\<close>

lemma dwell_first_activation:
  assumes "hit buttons0 p0 = Some T" "hovered_button self \<noteq> Some T"
      and "list_all (\<lambda>(now, p, buttons). hit buttons p = Some T \<and> now - since \<le> 2000) ticks"
      and "hit buttons1 p1 = Some T" "2000 < now1 - since"
  shows "dwell_run ie ((since, p0, buttons0) # ticks @ [(now1, p1, buttons1)]) self
           = (self\<lparr>hovered_button := Some T, hover_timer := Invalid\<rparr>,
              [] # replicate (length ticks) [] @ [[T]])"
proof -
  let ?h = "self\<lparr>hovered_button := Some T, hover_timer := Started since\<rparr>"
  have 1: "dwell ie since p0 buttons0 self = (?h, [])"
    using assms(1,2) by (rule dwell_enter)
  have 2: "dwell_run ie ticks ?h = (?h, replicate (length ticks) [])"
    using assms(3) by (intro dwell_run_hold) simp_all
  have 3: "dwell ie now1 p1 buttons1 ?h = (?h\<lparr>hover_timer := Invalid\<rparr>, [T])"
    using assms(4,5) by (intro dwell_fire) simp_all
  show ?thesis by (simp add: 1 2 3 dwell_run_append)
qed

text \<open>
  C1.  The claim: on an uninterrupted dwell on the same target, exactly one activation is
  emitted once the hover time reaches the threshold, and no further activation can fire
  until the cursor leaves the target and re-enters it.  The code does not do this.  After
  \<open>btn.click()\<close> it only invalidates the timer and leaves the button hovered, so the next
  tick on the button asks \<open>hasExpired(2000)\<close> of the invalid timer, which Qt answers with
  true: from the initial state, ticks at 0, 1000, 2100, 2200 and 2300 ms on the same
  button click it at 2100 ms and again on each later tick.
\<close>

theorem dwell_fires_again_while_dwelling:
  "dwell_run True
     [(0, (100, 80), [example_button]), (1000, (100, 80), [example_button]),
      (2100, (100, 80), [example_button]), (2200, (100, 80), [example_button]),
      (2300, (100, 80), [example_button])] idle
     = (\<lparr>hovered_button = Some 1, hover_timer = Invalid, prev_cursor_pos = (0, 0)\<rparr>,
        [[], [], [1], [1], [1]])"
  by (simp add: example_button_contains idle_def hasExpired_def)

section \<open>Properties of one tick\<close>

lemma check_gaze_unfold:
  "check_gaze ie calib screen buttons now offsets self =
     (case project (fst screen) (snd screen) calib offsets of
        Inl e \<Rightarrow> Inl e
      | Inr p \<Rightarrow>
          Inr (fst (dwell ie now p buttons (self\<lparr>prev_cursor_pos := smooth (prev_cursor_pos self) p\<rparr>)),
               MoveTo (fst (smooth (prev_cursor_pos self) p)) (snd (smooth (prev_cursor_pos self) p))
                 # map Click (snd (dwell ie now p buttons
                     (self\<lparr>prev_cursor_pos := smooth (prev_cursor_pos self) p\<rparr>)))))"
  by (simp add: check_gaze_def Let_def split: sum.splits prod.splits)

lemma check_gaze_isl:
  "isl (check_gaze ie calib screen buttons now offsets self)
     = isl (project (fst screen) (snd screen) calib offsets)"
  by (simp add: check_gaze_unfold split: sum.splits)

lemma example_smooth:
  "smooth (0, 0) (500, 400) = (100, 80)" "smooth (100, 80) (500, 400) = (180, 144)"
  by (simp_all add: smooth_def smooth_axis_def trunc_toward_zero_def)

subsection \<open>Sample counts\<close>

lemma set_count_nth: "0 < i \<Longrightarrow> set_count c val ! i = val ! i"
  by (simp add: set_count_def)

lemma column_set_count:
  "0 < i \<Longrightarrow> column i (map (\<lambda>(name, val). (name, set_count c val)) calib) = column i calib"
  unfolding column_def set_count_def
  by (auto simp: list_all_iff split_beta o_def)

lemma map_of_set_count:
  "map_of (map (\<lambda>(name, val). (name, set_count c val)) calib) k
     = map_option (set_count c) (map_of calib k)"
  by (induction calib) auto

lemma project_set_count:
  "project screen_w screen_h (map (\<lambda>(name, val). (name, set_count c val)) calib) offsets
     = project screen_w screen_h calib offsets"
proof -
  let ?calib = "map (\<lambda>(name, val). (name, set_count c val)) calib"
  have c2: "column 2 ?calib = column 2 calib" by (simp add: column_set_count)
  have c3: "column 3 ?calib = column 3 calib" by (simp add: column_set_count)
  have m: "map_of ?calib ''Center'' = map_option (set_count c) (map_of calib ''Center'')"
    by (rule map_of_set_count)
  show ?thesis
  proof (cases "column 2 calib")
    case (Inl e)
    then show ?thesis by (simp add: project_eq c2)
  next
    case dx: (Inr all_dx)
    show ?thesis
    proof (cases "column 3 calib")
      case (Inl e)
      with dx show ?thesis by (simp add: project_eq c2 c3)
    next
      case dy: (Inr all_dy)
      show ?thesis
      proof (cases "scale screen_w all_dx")
        case (Inl e)
        with dx dy show ?thesis by (simp add: project_eq c2 c3)
      next
        case sx: (Inr SCALE_X)
        show ?thesis
        proof (cases "scale screen_h all_dy")
          case (Inl e)
          with dx dy sx show ?thesis by (simp add: project_eq c2 c3)
        next
          case sy: (Inr SCALE_Y)
          show ?thesis
          proof (cases "map_of calib ''Center''")
            case None
            with dx dy sx sy show ?thesis by (simp add: project_eq c2 c3 m)
          next
            case (Some center)
            with dx dy sx sy show ?thesis
              by (cases "offset_px (- 1) (fst offsets) (center ! 2) SCALE_X")
                 (simp_all add: project_eq c2 c3 m set_count_nth)
          qed
        qed
      qed
    qed
  qed
qed

text \<open>
  C2, the claim as stated fails.  The table \<open>zero_count_calibration\<close> has a record with
  sample count 0; a tick with it raises nothing and moves the pointer.
\<close>

theorem zero_count_not_rejected:
  "check_gaze False zero_count_calibration (1000, 800) [] 0 (0, 0) idle
     = Inr (\<lparr>hovered_button = None, hover_timer = Invalid, prev_cursor_pos = (100, 80)\<rparr>,
            [MoveTo 100 80]) \<and>
   \<not> isl (check_gaze False zero_count_calibration (1000, 800) [] 0 (0, 0) idle)"
  by (simp add: check_gaze_unfold example_project example_smooth idle_def)

text \<open>
  C2, amended.  The per-tick mapping does not read the sample counts: replacing the count
  of every record by any number, zero included, leaves the result of the tick unchanged.
  A table with a zero-count record is mapped with like the same table with other counts,
  and no error is raised for the zero count.
\<close>

theorem check_gaze_ignores_counts:
  "check_gaze ie (map (\<lambda>(name, val). (name, set_count c val)) calib) screen buttons now offsets self
     = check_gaze ie calib screen buttons now offsets self"
  by (simp add: check_gaze_unfold project_set_count)

theorem check_gaze_ignores_counts_witness:
  "check_gaze False (map (\<lambda>(name, val). (name, set_count 0 val)) example_calibration)
       (1000, 800) [] 0 (0, 0) idle
     = check_gaze False example_calibration (1000, 800) [] 0 (0, 0) idle \<and>
   check_gaze False example_calibration (1000, 800) [] 0 (0, 0) idle
     = Inr (\<lparr>hovered_button = None, hover_timer = Invalid, prev_cursor_pos = (100, 80)\<rparr>,
            [MoveTo 100 80])"
proof -
  have "check_gaze False example_calibration (1000, 800) [] 0 (0, 0) idle
     = Inr (\<lparr>hovered_button = None, hover_timer = Invalid, prev_cursor_pos = (100, 80)\<rparr>,
            [MoveTo 100 80])"
    by (simp add: check_gaze_unfold example_project example_smooth idle_def)
  with check_gaze_ignores_counts [of False 0 example_calibration "(1000, 800)" "[]" 0 "(0, 0)" idle]
  show ?thesis by (rule conjI)
qed

subsection \<open>The point tested against the buttons\<close>

text \<open>
  C3, the claim as stated fails.  On a 1000 by 800 screen, with the pointer at the origin
  and a sample that projects to \<open>(500, 400)\<close>, the smoothed pointer position is
  \<open>(100, 80)\<close>, inside button 1; the tick leaves no button hovered, because it tests the
  projected point, which is outside that button.
\<close>

theorem hit_test_not_on_smoothed_point:
  "check_gaze False example_calibration (1000, 800) [example_button] 0 (0, 0) idle
     = Inr (\<lparr>hovered_button = None, hover_timer = Invalid, prev_cursor_pos = (100, 80)\<rparr>,
            [MoveTo 100 80]) \<and>
   hit [example_button] (100, 80) = Some 1"
  by (simp add: check_gaze_unfold example_project example_smooth idle_def
        example_button_contains example_button_hit)

text \<open>
  C3, amended.  On every tick that returns, the point tested for containment against the
  ordered button list is the clamped projected position of that tick's sample: the dwell
  loop runs on that point, and the hovered button afterwards is the first button that
  contains it.  The smoothed position is only where the pointer is moved and what the
  next tick smooths from.
\<close>

theorem hit_test_on_projected_point:
  assumes "check_gaze ie calib screen buttons now offsets self = Inr (self', events)"
  shows "\<exists>p clicks. project (fst screen) (snd screen) calib offsets = Inr p \<and>
           dwell ie now p buttons (self\<lparr>prev_cursor_pos := smooth (prev_cursor_pos self) p\<rparr>)
             = (self', clicks) \<and>
           hovered_button self' = hit buttons p \<and>
           prev_cursor_pos self' = smooth (prev_cursor_pos self) p"
proof (cases "project (fst screen) (snd screen) calib offsets")
  case (Inl e)
  with assms show ?thesis by (simp add: check_gaze_unfold)
next
  case (Inr p)
  let ?self = "self\<lparr>prev_cursor_pos := smooth (prev_cursor_pos self) p\<rparr>"
  from assms Inr have s: "self' = fst (dwell ie now p buttons ?self)"
    by (simp add: check_gaze_unfold)
  then have d: "dwell ie now p buttons ?self = (self', snd (dwell ie now p buttons ?self))"
    by simp
  have h: "hovered_button self' = hit buttons p" unfolding s by (rule dwell_hovered)
  have c: "prev_cursor_pos self' = smooth (prev_cursor_pos self) p"
    unfolding s by (simp add: dwell_cursor)
  from Inr d h c show ?thesis by blast
qed

theorem hit_test_on_projected_point_witness:
  "check_gaze True example_calibration (1000, 800) [example_button] 0 (0, 0) idle
     = Inr (\<lparr>hovered_button = None, hover_timer = Invalid, prev_cursor_pos = (100, 80)\<rparr>,
            [MoveTo 100 80]) \<and>
   (\<exists>p clicks. project 1000 800 example_calibration (0, 0) = Inr p \<and>
      dwell True 0 p [example_button]
          (idle\<lparr>prev_cursor_pos := smooth (prev_cursor_pos idle) p\<rparr>)
        = (\<lparr>hovered_button = None, hover_timer = Invalid, prev_cursor_pos = (100, 80)\<rparr>, clicks) \<and>
      hovered_button \<lparr>hovered_button = None, hover_timer = Invalid, prev_cursor_pos = (100, 80)\<rparr>
        = hit [example_button] p \<and>
      prev_cursor_pos \<lparr>hovered_button = None, hover_timer = Invalid, prev_cursor_pos = (100, 80)\<rparr>
        = smooth (prev_cursor_pos idle) p)"
proof -
  have t: "check_gaze True example_calibration (1000, 800) [example_button] 0 (0, 0) idle
     = Inr (\<lparr>hovered_button = None, hover_timer = Invalid, prev_cursor_pos = (100, 80)\<rparr>,
            [MoveTo 100 80])"
    by (simp add: check_gaze_unfold example_project example_smooth idle_def
          example_button_contains)
  from hit_test_on_projected_point [OF t] have
    "\<exists>p clicks. project 1000 800 example_calibration (0, 0) = Inr p \<and>
      dwell True 0 p [example_button]
          (idle\<lparr>prev_cursor_pos := smooth (prev_cursor_pos idle) p\<rparr>)
        = (\<lparr>hovered_button = None, hover_timer = Invalid, prev_cursor_pos = (100, 80)\<rparr>, clicks) \<and>
      hovered_button \<lparr>hovered_button = None, hover_timer = Invalid, prev_cursor_pos = (100, 80)\<rparr>
        = hit [example_button] p \<and>
      prev_cursor_pos \<lparr>hovered_button = None, hover_timer = Invalid, prev_cursor_pos = (100, 80)\<rparr>
        = smooth (prev_cursor_pos idle) p"
    by (simp only: fst_conv snd_conv)
  with t show ?thesis by (rule conjI)
qed

subsection \<open>A tick without a new sample\<close>

text \<open>
  C4, the claim as stated fails.  Two consecutive ticks read the same sample \<open>(0, 0)\<close>;
  the first moves the pointer from the origin to \<open>(100, 80)\<close>, the second moves it on to
  \<open>(180, 144)\<close>.
\<close>

theorem same_sample_moves_cursor:
  "check_gaze False example_calibration (1000, 800) [] 0 (0, 0) idle
     = Inr (\<lparr>hovered_button = None, hover_timer = Invalid, prev_cursor_pos = (100, 80)\<rparr>,
            [MoveTo 100 80]) \<and>
   check_gaze False example_calibration (1000, 800) [] 100 (0, 0)
       \<lparr>hovered_button = None, hover_timer = Invalid, prev_cursor_pos = (100, 80)\<rparr>
     = Inr (\<lparr>hovered_button = None, hover_timer = Invalid, prev_cursor_pos = (180, 144)\<rparr>,
            [MoveTo 180 144])"
  by (simp add: check_gaze_unfold example_project example_smooth idle_def)

text \<open>
  C4, amended.  On a tick that reads the same sample as the tick before (same table and
  screen of at least one pixel, pointer coordinates non-negative), the projected position
  is the one of the tick before and the pointer makes one more smoothing step from its
  current position toward it.  The pointer position is left unchanged exactly when, on
  each axis, the projected coordinate is zero to four pixels above the pointer coordinate;
  in particular when the pointer is on the projected position.
\<close>

theorem same_sample_tick:
  assumes t1: "check_gaze ie calib (screen_w, screen_h) buttons now offsets self
                 = Inr (self1, events1)"
      and t2: "check_gaze ie calib (screen_w, screen_h) buttons' now' offsets self1
                 = Inr (self2, events2)"
      and scr: "1 \<le> screen_w" "1 \<le> screen_h"
      and pos: "0 \<le> fst (prev_cursor_pos self)" "0 \<le> snd (prev_cursor_pos self)"
  shows "\<exists>x y. project screen_w screen_h calib offsets = Inr (x, y) \<and>
           prev_cursor_pos self1 = smooth (prev_cursor_pos self) (x, y) \<and>
           prev_cursor_pos self2 = smooth (prev_cursor_pos self1) (x, y) \<and>
           (prev_cursor_pos self2 = prev_cursor_pos self1) =
             (fst (prev_cursor_pos self1) \<le> x \<and> x \<le> fst (prev_cursor_pos self1) + 4 \<and>
              snd (prev_cursor_pos self1) \<le> y \<and> y \<le> snd (prev_cursor_pos self1) + 4)"
proof (cases "project screen_w screen_h calib offsets")
  case (Inl e)
  with t1 show ?thesis by (simp add: check_gaze_unfold)
next
  case (Inr p)
  obtain x y where p: "p = (x, y)" by (cases p)
  from Inr p have pr: "project screen_w screen_h calib offsets = Inr (x, y)" by simp
  from project_bounds [OF scr pr] have xy: "0 \<le> x" "0 \<le> y" by simp_all
  from t1 pr have c1: "prev_cursor_pos self1 = smooth (prev_cursor_pos self) (x, y)"
    by (auto simp: check_gaze_unfold dwell_cursor)
  from t2 pr have c2: "prev_cursor_pos self2 = smooth (prev_cursor_pos self1) (x, y)"
    by (auto simp: check_gaze_unfold dwell_cursor)
  from c1 pos xy have nn: "0 \<le> fst (prev_cursor_pos self1)" "0 \<le> snd (prev_cursor_pos self1)"
    by (simp_all add: smooth_def smooth_axis_nonneg)
  have "(prev_cursor_pos self2 = prev_cursor_pos self1) =
          (smooth_axis (fst (prev_cursor_pos self1)) x = fst (prev_cursor_pos self1) \<and>
           smooth_axis (snd (prev_cursor_pos self1)) y = snd (prev_cursor_pos self1))"
    unfolding c2 by (simp add: smooth_def prod_eq_iff)
  also have "\<dots> = (fst (prev_cursor_pos self1) \<le> x \<and> x \<le> fst (prev_cursor_pos self1) + 4 \<and>
              snd (prev_cursor_pos self1) \<le> y \<and> y \<le> snd (prev_cursor_pos self1) + 4)"
    by (simp add: smooth_axis_unchanged_iff [OF nn(1) xy(1)]
          smooth_axis_unchanged_iff [OF nn(2) xy(2)])
  finally show ?thesis using pr c1 c2 by blast
qed

theorem same_sample_tick_witness:
  "check_gaze False example_calibration (1000, 800) [] 0 (0, 0) idle = Inr (\<lparr>hovered_button = None, hover_timer = Invalid, prev_cursor_pos = (100, 80)\<rparr>, [MoveTo 100 80]) \<and>
   check_gaze False example_calibration (1000, 800) [] 100 (0, 0) \<lparr>hovered_button = None, hover_timer = Invalid, prev_cursor_pos = (100, 80)\<rparr> = Inr (\<lparr>hovered_button = None, hover_timer = Invalid, prev_cursor_pos = (180, 144)\<rparr>, [MoveTo 180 144]) \<and>
   (1::int) \<le> 1000 \<and> (1::int) \<le> 800 \<and>
   0 \<le> fst (prev_cursor_pos idle) \<and> 0 \<le> snd (prev_cursor_pos idle) \<and>
   (\<exists>x y. project 1000 800 example_calibration (0, 0) = Inr (x, y) \<and>
      prev_cursor_pos \<lparr>hovered_button = None, hover_timer = Invalid, prev_cursor_pos = (100, 80)\<rparr>
        = smooth (prev_cursor_pos idle) (x, y) \<and>
      prev_cursor_pos \<lparr>hovered_button = None, hover_timer = Invalid, prev_cursor_pos = (180, 144)\<rparr>
        = smooth (prev_cursor_pos \<lparr>hovered_button = None, hover_timer = Invalid, prev_cursor_pos = (100, 80)\<rparr>) (x, y) \<and>
      (prev_cursor_pos \<lparr>hovered_button = None, hover_timer = Invalid, prev_cursor_pos = (180, 144)\<rparr>
         = prev_cursor_pos \<lparr>hovered_button = None, hover_timer = Invalid, prev_cursor_pos = (100, 80)\<rparr>) =
        (fst (prev_cursor_pos \<lparr>hovered_button = None, hover_timer = Invalid, prev_cursor_pos = (100, 80)\<rparr>) \<le> x \<and>
         x \<le> fst (prev_cursor_pos \<lparr>hovered_button = None, hover_timer = Invalid, prev_cursor_pos = (100, 80)\<rparr>) + 4 \<and>
         snd (prev_cursor_pos \<lparr>hovered_button = None, hover_timer = Invalid, prev_cursor_pos = (100, 80)\<rparr>) \<le> y \<and>
         y \<le> snd (prev_cursor_pos \<lparr>hovered_button = None, hover_timer = Invalid, prev_cursor_pos = (100, 80)\<rparr>) + 4))"
proof -
  have t1: "check_gaze False example_calibration (1000, 800) [] 0 (0, 0) idle
              = Inr (\<lparr>hovered_button = None, hover_timer = Invalid, prev_cursor_pos = (100, 80)\<rparr>, [MoveTo 100 80])"
    by (simp add: check_gaze_unfold example_project example_smooth idle_def)
  have t2: "check_gaze False example_calibration (1000, 800) [] 100 (0, 0) \<lparr>hovered_button = None, hover_timer = Invalid, prev_cursor_pos = (100, 80)\<rparr>
              = Inr (\<lparr>hovered_button = None, hover_timer = Invalid, prev_cursor_pos = (180, 144)\<rparr>, [MoveTo 180 144])"
    by (simp add: check_gaze_unfold example_project example_smooth)
  have p: "0 \<le> fst (prev_cursor_pos idle)" "0 \<le> snd (prev_cursor_pos idle)"
    by (simp_all add: idle_def)
  have c: "\<exists>x y. project 1000 800 example_calibration (0, 0) = Inr (x, y) \<and>
      prev_cursor_pos \<lparr>hovered_button = None, hover_timer = Invalid, prev_cursor_pos = (100, 80)\<rparr>
        = smooth (prev_cursor_pos idle) (x, y) \<and>
      prev_cursor_pos \<lparr>hovered_button = None, hover_timer = Invalid, prev_cursor_pos = (180, 144)\<rparr>
        = smooth (prev_cursor_pos \<lparr>hovered_button = None, hover_timer = Invalid, prev_cursor_pos = (100, 80)\<rparr>) (x, y) \<and>
      (prev_cursor_pos \<lparr>hovered_button = None, hover_timer = Invalid, prev_cursor_pos = (180, 144)\<rparr>
         = prev_cursor_pos \<lparr>hovered_button = None, hover_timer = Invalid, prev_cursor_pos = (100, 80)\<rparr>) =
        (fst (prev_cursor_pos \<lparr>hovered_button = None, hover_timer = Invalid, prev_cursor_pos = (100, 80)\<rparr>) \<le> x \<and>
         x \<le> fst (prev_cursor_pos \<lparr>hovered_button = None, hover_timer = Invalid, prev_cursor_pos = (100, 80)\<rparr>) + 4 \<and>
         snd (prev_cursor_pos \<lparr>hovered_button = None, hover_timer = Invalid, prev_cursor_pos = (100, 80)\<rparr>) \<le> y \<and>
         y \<le> snd (prev_cursor_pos \<lparr>hovered_button = None, hover_timer = Invalid, prev_cursor_pos = (100, 80)\<rparr>) + 4)"
    by (rule same_sample_tick [OF t1 t2 _ _ p]) simp_all
  from t1 t2 p c show ?thesis by (intro conjI) simp_all
qed

section \<open>Properties of the accuracy evaluation\<close>

subsection \<open>Skipped entries\<close>

lemma collect_filter: "collect w h (filter qualifies calib) = collect w h calib"
proof (induction calib)
  case Nil
  show ?case by simp
next
  case (Cons entry calib)
  obtain name vals where e: "entry = (name, vals)" by (cases entry)
  show ?case
  proof (cases "qualifies entry")
    case True
    with Cons e show ?thesis by (simp split: option.splits)
  next
    case False
    then have "length vals \<noteq> 5 \<or> map_of positions name = None"
      by (auto simp: qualifies_def e map_of_eq_None_iff)
    with Cons e False show ?thesis by auto
  qed
qed

lemma length_collect: "length (collect w h calib) = length (filter qualifies calib)"
proof (induction calib)
  case Nil
  show ?case by simp
next
  case (Cons entry calib)
  obtain name vals where e: "entry = (name, vals)" by (cases entry)
  show ?case
  proof (cases "qualifies entry")
    case True
    then have n: "name \<in> fst ` set positions" and l: "length vals = 5"
      by (simp_all add: qualifies_def e)
    from n have "map_of positions name \<noteq> None" by (simp add: map_of_eq_None_iff)
    then obtain pos where "map_of positions name = Some pos" by blast
    with Cons e True l show ?thesis by (simp add: Let_def split: prod.splits)
  next
    case False
    then have "length vals \<noteq> 5 \<or> map_of positions name = None"
      by (auto simp: qualifies_def e map_of_eq_None_iff)
    with Cons e False show ?thesis by auto
  qed
qed

lemma collect_empty_iff: "(collect w h calib = []) = (filter qualifies calib = [])"
  using length_collect [of w h calib] by (metis length_0_conv)

lemma run_evaluation_None: "(run_evaluation w h calib = None) = (filter qualifies calib = [])"
proof (cases "collect w h calib = []")
  case True
  with collect_empty_iff [of w h calib] show ?thesis by (simp add: run_evaluation_def)
next
  case False
  with collect_empty_iff [of w h calib] show ?thesis by (simp add: run_evaluation_def Let_def)
qed

lemma run_evaluation_filter:
  "run_evaluation w h (filter qualifies calib) = run_evaluation w h calib"
  by (simp add: run_evaluation_def collect_filter)

text \<open>
  C10.  The evaluator skips every entry whose value does not have five elements or whose
  name is not one of the nine anchors of \<open>positions\<close>: the points it collects, one for each
  remaining entry, and so the summary it computes, are those of the table with the
  skipped entries removed; and it returns without a summary exactly when no entry
  remains.
\<close>

theorem evaluator_skips:
  "collect w h calib = collect w h (filter qualifies calib) \<and>
   length (collect w h calib) = length (filter qualifies calib) \<and>
   run_evaluation w h calib = run_evaluation w h (filter qualifies calib) \<and>
   (run_evaluation w h calib = None) = (filter qualifies calib = [])"
  by (simp add: collect_filter length_collect run_evaluation_None run_evaluation_filter)

theorem evaluator_skips_witness:
  "filter qualifies mixed_calibration
     = [(''Center'', [10, 0, 0, 0, 50]), (''Top-Left'', [10, 0, 3, 4, 10])] \<and>
   collect 1000 800 mixed_calibration
     = collect 1000 800 [(''Center'', [10, 0, 0, 0, 50]), (''Top-Left'', [10, 0, 3, 4, 10])] \<and>
   length (collect 1000 800 mixed_calibration) = 2 \<and>
   run_evaluation 1000 800 mixed_calibration
     = run_evaluation 1000 800 [(''Center'', [10, 0, 0, 0, 50]), (''Top-Left'', [10, 0, 3, 4, 10])] \<and>
   run_evaluation 1000 800 mixed_calibration \<noteq> None \<and>
   run_evaluation 1000 800 [(''Nowhere'', [10, 0, 1, 1, 50])] = None"
proof -
  have f: "filter qualifies mixed_calibration
     = [(''Center'', [10, 0, 0, 0, 50]), (''Top-Left'', [10, 0, 3, 4, 10])]"
    by (simp add: mixed_calibration_def qualifies_def positions_def)
  have g: "filter qualifies [(''Nowhere'', [10, 0, 1, 1, 50])] = []"
    by (simp add: qualifies_def positions_def)
  note a = evaluator_skips [of 1000 800 mixed_calibration, unfolded f]
  note b = evaluator_skips [of 1000 800 "[(''Nowhere'', [10, 0, 1, 1, 50])]", unfolded g]
  note a1 = a [THEN conjunct1]
  note a2 = a [THEN conjunct2, THEN conjunct1]
  note a3 = a [THEN conjunct2, THEN conjunct2, THEN conjunct1]
  note a4 = a [THEN conjunct2, THEN conjunct2, THEN conjunct2]
  note b4 = b [THEN conjunct2, THEN conjunct2, THEN conjunct2]
  have l: "length (collect 1000 800 mixed_calibration) = 2"
    using a2 by (simp del: collect.simps)
  have n: "run_evaluation 1000 800 mixed_calibration \<noteq> None"
    using a4 by (simp del: collect.simps)
  have m: "run_evaluation 1000 800 [(''Nowhere'', [10, 0, 1, 1, 50])] = None"
    using b4 by (simp del: collect.simps)
  from f a1 l a3 n m show ?thesis by (intro conjI)
qed

subsection \<open>Accuracy at a radius\<close>

lemma length_filter_mono:
  "(\<And>x. P x \<Longrightarrow> Q x) \<Longrightarrow> length (filter P xs) \<le> length (filter Q xs)"
  by (induction xs) auto

lemma accuracy_at_mono:
  assumes "r1 \<le> r2"
  shows "accuracy_at euclidean r1 \<le> accuracy_at euclidean r2"
proof -
  have "length (filter (\<lambda>d. d < r1) euclidean) \<le> length (filter (\<lambda>d. d < r2) euclidean)"
    using assms by (intro length_filter_mono) simp
  then show ?thesis
    unfolding accuracy_at_def by (simp add: divide_right_mono)
qed

lemma accuracy_at_all:
  assumes "euclidean \<noteq> []" "\<And>d. d \<in> set euclidean \<Longrightarrow> d < r"
  shows "accuracy_at euclidean r = 1"
proof -
  from assms(2) have "filter (\<lambda>d. d < r) euclidean = euclidean" by (simp add: filter_id_conv)
  with assms(1) show ?thesis by (simp add: accuracy_at_def)
qed

text \<open>
  C9.  For any fixed non-empty list of per-anchor distance errors (the evaluator computes
  the accuracy only when there is at least one), the accuracy at a radius does not
  decrease when the radius grows, and it is 1 for every radius strictly greater than the
  largest distance error.
\<close>

theorem accuracy_monotone:
  assumes "euclidean \<noteq> []"
  shows "(r1 \<le> r2 \<longrightarrow> accuracy_at euclidean r1 \<le> accuracy_at euclidean r2) \<and>
         (Max (set euclidean) < r \<longrightarrow> accuracy_at euclidean r = 1)"
proof -
  have "accuracy_at euclidean r = 1" if "Max (set euclidean) < r"
  proof (rule accuracy_at_all [OF assms])
    fix d assume "d \<in> set euclidean"
    then have "d \<le> Max (set euclidean)" by simp
    with that show "d < r" by simp
  qed
  then show ?thesis by (simp add: accuracy_at_mono)
qed

theorem accuracy_monotone_witness:
  "[0, 50] \<noteq> ([]::real list) \<and> (20::real) \<le> 60 \<and>
   accuracy_at [0, 50] 20 = 1 / 2 \<and> accuracy_at [0, 50] 60 = 1 \<and>
   accuracy_at [0, 50] 20 \<le> accuracy_at [0, 50] 60 \<and>
   Max (set [0, 50]) < (60::real) \<and> accuracy_at [0, 50] 60 = 1"
proof -
  have v: "accuracy_at [0, 50] 20 = 1 / 2" "accuracy_at [0, 50] 60 = 1"
    by (simp_all add: accuracy_at_def)
  from accuracy_monotone [of "[0, 50]" 20 60 60] v show ?thesis by simp
qed

subsection \<open>A table whose stored means are the anchor positions\<close>

lemma sqrt_less_iff: "0 < t \<Longrightarrow> (sqrt x < t) = (x < t * t)"
proof -
  assume t: "0 < t"
  then have "sqrt (t * t) = t" by simp
  then have "(sqrt x < t) = (sqrt x < sqrt (t * t))" by simp
  also have "\<dots> = (x < t * t)" by (rule real_sqrt_less_iff)
  finally show ?thesis .
qed

lemma map_of_positions:
  "map_of positions ''Top-Left'' = Some (0, 0, CHR ''q'')"
  "map_of positions ''Top'' = Some (0.5, 0, CHR ''w'')"
  "map_of positions ''Top-Right'' = Some (1, 0, CHR ''e'')"
  "map_of positions ''Far-Left'' = Some (0, 0.5, CHR ''a'')"
  "map_of positions ''Center'' = Some (0.5, 0.5, CHR ''c'')"
  "map_of positions ''Far-Right'' = Some (1, 0.5, CHR ''d'')"
  "map_of positions ''Bottom-Left'' = Some (0, 1, CHR ''z'')"
  "map_of positions ''Bottom'' = Some (0.5, 1, CHR ''s'')"
  "map_of positions ''Bottom-Right'' = Some (1, 1, CHR ''x'')"
  by (simp_all add: positions_def)

lemma perfect_calibration_accuracy:
  "map (\<lambda>t. accuracy_at (map euclidean_norm (collect 1000 800 perfect_calibration))
              (real_of_int t)) [20, 40, 60, 80, 100]
     = [1 / 9, 1 / 9, 1 / 9, 1 / 9, 1 / 9]"
  by (simp add: perfect_calibration_def euclidean_norm_def accuracy_at_def sqrt_less_iff
        map_of_positions)

lemma perfect_calibration_collect: "collect 1000 800 perfect_calibration \<noteq> []"
  by (simp add: perfect_calibration_def map_of_positions)

lemma py_round2_values:
  "py_round2 0 = 0" "py_round2 100 = 100" "py_round2 (100 / 9) = 1111 / 100"
  by (simp_all add: py_round2_def Let_def)

text \<open>
  C5, the claim as stated fails.  On a 1000 by 800 screen, for the table of the claim
  (every anchor stored with \<open>dx = x_frac * 1000\<close>, \<open>dy = y_frac * 800\<close>, \<open>width = 1\<close>) the
  evaluator predicts each anchor at twice its ground-truth position, so only the Top-Left
  anchor has an error below any of the thresholds: the reported accuracy is 11.11 percent
  at each of them, not 100.
\<close>

theorem perfect_table_not_accurate:
  "map_option accuracy_percentages (run_evaluation 1000 800 perfect_calibration)
     = Some [1111 / 100, 1111 / 100, 1111 / 100, 1111 / 100, 1111 / 100]"
proof -
  have "map_option accuracy_percentages (run_evaluation 1000 800 perfect_calibration)
     = Some (map (\<lambda>a. py_round2 (a * 100))
         (map (\<lambda>t. accuracy_at (map euclidean_norm (collect 1000 800 perfect_calibration))
                 (real_of_int t)) [20, 40, 60, 80, 100]))"
    using perfect_calibration_collect by (simp add: run_evaluation_def Let_def)
  then show ?thesis unfolding perfect_calibration_accuracy by (simp add: py_round2_values)
qed

lemma collect_zero_offsets:
  assumes "list_all (\<lambda>entry. snd entry ! 2 = 0 \<and> snd entry ! 3 = 0) calib"
  shows "list_all (\<lambda>pg. fst pg = snd pg) (collect w h calib)"
  using assms
proof (induction calib)
  case Nil
  show ?case by simp
next
  case (Cons entry calib)
  obtain name vals where e: "entry = (name, vals)" by (cases entry)
  from Cons show ?case
    by (simp add: e Let_def split: option.splits prod.splits)
qed

lemma euclidean_norm_same: "fst pg = snd pg \<Longrightarrow> euclidean_norm pg = 0"
  by (cases pg) (auto simp: euclidean_norm_def)

lemma ang_err_same:
  assumes "fst pg = snd pg"
  shows "ang_err pg = 0"
proof -
  obtain gx gy where pg: "pg = ((gx, gy), (gx, gy))"
    using assms by (cases pg) (auto simp: prod_eq_iff)
  let ?n = "gx\<^sup>2 + gy\<^sup>2 + 1\<^sup>2"
  have pos: "0 < ?n" by (simp add: add_nonneg_pos)
  then have "sqrt ?n * sqrt ?n = ?n" by simp
  moreover have "gx * gx + gy * gy + 1 * 1 = ?n" by (simp add: power2_eq_square)
  ultimately have "(gx * gx + gy * gy + 1 * 1) / (sqrt ?n * sqrt ?n) = 1"
    using pos by simp
  then show ?thesis
    unfolding ang_err_def pg by (simp only: prod.case Let_def clip_def) simp
qed

lemma mean_zero: "list_all (\<lambda>x. f x = 0) xs \<Longrightarrow> mean (map f xs) = 0"
proof -
  assume "list_all (\<lambda>x. f x = 0) xs"
  then have "sum_list (map f xs) = 0" by (induction xs) simp_all
  then show ?thesis by (simp add: mean_def)
qed

text \<open>
  C5, amended.  For a calibration table with at least one entry that the evaluator does
  not skip and in which every stored mean offset is zero (\<open>dx = 0\<close>, \<open>dy = 0\<close>, any
  width), so that each predicted point is the anchor's ground-truth position, the mean
  Euclidean distance error is 0, the accuracy is 1 at every threshold greater than 0, and
  the summary reports distance 0, angle 0 and 100 percent at each of the five thresholds.
\<close>

theorem zero_offsets_evaluation:
  assumes "filter qualifies calib \<noteq> []"
      and "list_all (\<lambda>entry. snd entry ! 2 = 0 \<and> snd entry ! 3 = 0) calib"
  shows "(0 < t \<longrightarrow> accuracy_at (map euclidean_norm (collect w h calib)) t = 1) \<and>
         mean (map euclidean_norm (collect w h calib)) = 0 \<and>
         run_evaluation w h calib =
           Some \<lparr>mean_euclidean_distance_px = 0, mean_angular_error_deg = 0,
                  accuracy_thresholds_px = [20, 40, 60, 80, 100],
                  accuracy_percentages = [100, 100, 100, 100, 100]\<rparr>"
proof -
  let ?predicted = "collect w h calib"
  let ?euclidean = "map euclidean_norm ?predicted"
  from assms(1) have ne: "?predicted \<noteq> []" by (simp add: collect_empty_iff)
  from collect_zero_offsets [OF assms(2)]
  have same: "list_all (\<lambda>pg. fst pg = snd pg) ?predicted" .
  then have e0: "list_all (\<lambda>pg. euclidean_norm pg = 0) ?predicted"
    by (simp add: list_all_iff euclidean_norm_same)
  from same have a0: "list_all (\<lambda>pg. ang_err pg = 0) ?predicted"
    by (simp add: list_all_iff ang_err_same)
  have acc: "accuracy_at ?euclidean r = 1" if "0 < r" for r
  proof (rule accuracy_at_all)
    from ne show "?euclidean \<noteq> []" by simp
    fix d assume "d \<in> set ?euclidean"
    with e0 have "d = 0" by (auto simp: list_all_iff)
    with that show "d < r" by simp
  qed
  have m: "mean ?euclidean = 0" using e0 by (rule mean_zero)
  have ma: "mean (map ang_err ?predicted) = 0" using a0 by (rule mean_zero)
  have "run_evaluation w h calib =
           Some \<lparr>mean_euclidean_distance_px = 0, mean_angular_error_deg = 0,
                  accuracy_thresholds_px = [20, 40, 60, 80, 100],
                  accuracy_percentages = [100, 100, 100, 100, 100]\<rparr>"
    using ne by (simp add: run_evaluation_def Let_def m ma acc py_round2_values)
  with acc m show ?thesis by simp
qed

theorem zero_offsets_evaluation_witness:
  "filter qualifies zero_calibration \<noteq> [] \<and>
   list_all (\<lambda>entry. snd entry ! 2 = 0 \<and> snd entry ! 3 = 0) zero_calibration \<and>
   (0::real) < 1 \<and>
   accuracy_at (map euclidean_norm (collect 1000 800 zero_calibration)) 1 = 1 \<and>
   mean (map euclidean_norm (collect 1000 800 zero_calibration)) = 0 \<and>
   run_evaluation 1000 800 zero_calibration =
           Some \<lparr>mean_euclidean_distance_px = 0, mean_angular_error_deg = 0,
                  accuracy_thresholds_px = [20, 40, 60, 80, 100],
                  accuracy_percentages = [100, 100, 100, 100, 100]\<rparr>"
proof -
  have 1: "filter qualifies zero_calibration \<noteq> []"
    by (simp add: zero_calibration_def qualifies_def positions_def)
  have 2: "list_all (\<lambda>entry. snd entry ! 2 = 0 \<and> snd entry ! 3 = 0) zero_calibration"
    by (simp add: zero_calibration_def)
  from zero_offsets_evaluation [OF 1 2, of 1 1000 800] 1 2 show ?thesis by simp
qed

end
